theory Spec2Isabelle
  imports Complex_Main
begin

section \<open>Data model\<close>

text \<open>
  The orders service keeps three tables (orders, outbox events, products) in PostgreSQL and
  talks to RabbitMQ. A table is modelled as the list of its rows in insertion order, an SQL
  statement as a function on tables, and an exception as the left injection of a sum.
  A UUID is identified with its canonical text, so that \<open>str(uuid)\<close> is the identity;
  a timestamp is a natural number.
\<close>

type_synonym uuid = string
type_synonym datetime = nat

datatype OrderStatus = PENDING | PROCESSING | COMPLETED | FAILED | CANCELLED

text \<open>Values that \<open>json.loads\<close> produces and \<open>json.dumps\<close> accepts.\<close>

datatype json =
    JNull
  | JBool bool
  | JInt int
  | JFloat rat
  | JStr string
  | JArr "json list"
  | JObj "(string \<times> json) list"

text \<open>The exceptions that the modelled code raises, catches or lets through.\<close>

datatype py_exn =
    InsufficientStockError
  | IntegrityConstraintViolationError string
  | InvalidOrderDataError string
  | InfrastructureError
  | DataError
  | JSONDecodeError
  | UnicodeDecodeError
  | ValueError
  | AttributeError
  | TypeError
  | ValidationError

record order =
  order_id :: uuid
  customer_id :: uuid
  product_id :: uuid
  quantity :: int
  total_amount :: rat
  order_status :: OrderStatus
  order_created_at :: datetime
  order_updated_at :: datetime

text \<open>
  \<open>OutboxEvent\<close>; the payload type is a parameter: the domain object carries a
  dictionary, the table row its JSON text.
\<close>

record 'd outbox_event =
  event_id :: uuid
  aggregate_id :: uuid
  aggregate_type :: string
  event_type :: string
  event_data :: 'd
  event_created_at :: datetime
  processed_at :: "datetime option"
  status :: string
  retry_count :: int
  max_retries :: int

record product =
  prod_id :: uuid
  name :: string
  description :: "string option"
  price :: rat
  sku :: "string option"
  stock_quantity :: int
  prod_created_at :: datetime
  prod_updated_at :: datetime

record db =
  orders :: "order list"
  outbox_events :: "string outbox_event list"
  products :: "product list"

text \<open>\<open>conn.fetchrow\<close>: the first row of a statement's result, or \<open>None\<close>.\<close>

definition fetchrow :: "'a list \<Rightarrow> 'a option" where
  "fetchrow rows = (case rows of [] \<Rightarrow> None | r # _ \<Rightarrow> Some r)"

text \<open>\<open>async with conn.transaction()\<close>: an exception in the body rolls every change back.\<close>

definition transaction :: "(db \<Rightarrow> py_exn + 'a \<times> db) \<Rightarrow> db \<Rightarrow> (py_exn + 'a) \<times> db" where
  "transaction body d =
     (case body d of Inl e \<Rightarrow> (Inl e, d) | Inr (a, d') \<Rightarrow> (Inr a, d'))"

definition and_then :: "py_exn + 'a \<Rightarrow> ('a \<Rightarrow> py_exn + 'b) \<Rightarrow> py_exn + 'b" where
  "and_then r f = (case r of Inl e \<Rightarrow> Inl e | Inr a \<Rightarrow> f a)"

text \<open>
  The ranges of PostgreSQL's \<open>integer\<close> and \<open>bigint\<close>. The schema is not part of the
  sources; \<open>stock_quantity\<close> is read as an \<open>integer\<close> column, and a \<open>LIMIT\<close> is a
  \<open>bigint\<close>. A query argument outside the range of its parameter is refused with a
  \<open>DataError\<close> before the statement runs, and a statement whose arithmetic leaves the
  range of the column is aborted with an error of the same class.
\<close>

definition pg_integer :: "int \<Rightarrow> bool" where
  "pg_integer n = (- 2147483648 \<le> n \<and> n \<le> 2147483647)"

definition pg_bigint :: "int \<Rightarrow> bool" where
  "pg_bigint n = (- 9223372036854775808 \<le> n \<and> n \<le> 9223372036854775807)"

text \<open>What a reader of the products table sees as the stock of a product.\<close>

definition stock_of :: "db \<Rightarrow> uuid \<Rightarrow> int option" where
  "stock_of d pid = map_option stock_quantity (find (\<lambda>p. prod_id p = pid) (products d))"

definition status_of :: "db \<Rightarrow> uuid \<Rightarrow> OrderStatus option" where
  "status_of d oid = map_option order_status (find (\<lambda>r. order_id r = oid) (orders d))"

section \<open>ProductRepository\<close>

text \<open>
  \<open>UPDATE products SET stock_quantity = stock_quantity - $2, updated_at = NOW()
  WHERE id = $1 AND stock_quantity >= $2 RETURNING stock_quantity\<close>, read with
  \<open>fetchrow\<close>. The statement is shared by \<open>reserve_stock\<close> and
  \<open>create_with_outbox_event\<close>. \<open>stock_reserve_update\<close> is what the statement does
  when it runs to its end; \<open>stock_reserve_query\<close> adds the two ways in which it does not:
  the quantity does not fit the parameter, or the new value of a row that the condition
  selects leaves the range of the column. A stored value lies in that range, so the second
  case is stated for such rows.
\<close>

definition stock_reserve_update :: "datetime \<Rightarrow> db \<Rightarrow> uuid \<Rightarrow> int \<Rightarrow> int option \<times> db" where
  "stock_reserve_update now d pid q =
     (let hit = (\<lambda>p. prod_id p = pid \<and> stock_quantity p \<ge> q);
          upd = (\<lambda>p. p\<lparr>stock_quantity := stock_quantity p - q, prod_updated_at := now\<rparr>)
      in (fetchrow (map (stock_quantity \<circ> upd) (filter hit (products d))),
          d\<lparr>products := map (\<lambda>p. if hit p then upd p else p) (products d)\<rparr>))"

definition stock_reserve_query ::
  "datetime \<Rightarrow> db \<Rightarrow> uuid \<Rightarrow> int \<Rightarrow> py_exn + int option \<times> db" where
  "stock_reserve_query now d pid q =
     (if \<not> pg_integer q then Inl DataError
      else if list_ex (\<lambda>p. prod_id p = pid \<and> stock_quantity p \<ge> q
                          \<and> pg_integer (stock_quantity p)
                          \<and> \<not> pg_integer (stock_quantity p - q)) (products d)
        then Inl DataError
      else Inr (stock_reserve_update now d pid q))"

definition reserve_stock :: "bool \<Rightarrow> datetime \<Rightarrow> db \<Rightarrow> uuid \<Rightarrow> int \<Rightarrow> (py_exn + bool) \<times> db" where
  "reserve_stock up now d pid q =
     (if \<not> up then (Inl InfrastructureError, d)
      else (case stock_reserve_query now d pid q of
              Inl e \<Rightarrow> (Inl e, d)
            | Inr (None, d') \<Rightarrow> (Inr False, d')
            | Inr (Some _, d') \<Rightarrow> (Inr True, d')))"

text \<open>
  \<open>UPDATE products SET stock_quantity = stock_quantity + $2, updated_at = NOW()
  WHERE id = $1 RETURNING stock_quantity\<close>; the statement runs on its own connection,
  outside any transaction, and the sign of the stored result is looked at afterwards. It is
  refused or aborted in the same two cases as the reservation.
\<close>

definition update_stock :: "bool \<Rightarrow> datetime \<Rightarrow> db \<Rightarrow> uuid \<Rightarrow> int \<Rightarrow> (py_exn + bool) \<times> db" where
  "update_stock up now d pid q =
     (if \<not> up then (Inl InfrastructureError, d)
      else if \<not> pg_integer q then (Inl DataError, d)
      else if list_ex (\<lambda>p. prod_id p = pid \<and> pg_integer (stock_quantity p)
                          \<and> \<not> pg_integer (stock_quantity p + q)) (products d)
        then (Inl DataError, d)
      else
        (let hit = (\<lambda>p. prod_id p = pid);
             upd = (\<lambda>p. p\<lparr>stock_quantity := stock_quantity p + q, prod_updated_at := now\<rparr>);
             row = fetchrow (map (stock_quantity \<circ> upd) (filter hit (products d)));
             d' = d\<lparr>products := map (\<lambda>p. if hit p then upd p else p) (products d)\<rparr>
         in (case row of
               Some s \<Rightarrow> if s < 0 then (Inr False, d') else (Inr True, d')
             | None \<Rightarrow> (Inr True, d'))))"

text \<open>The domain object's own methods, \<open>Product.update_stock\<close> and \<open>Product.reserve_stock\<close>.\<close>

definition Product_update_stock :: "datetime \<Rightarrow> product \<Rightarrow> int \<Rightarrow> py_exn + product" where
  "Product_update_stock now p q =
     (if stock_quantity p + q < 0 then Inl ValueError
      else Inr (p\<lparr>stock_quantity := stock_quantity p + q, prod_updated_at := now\<rparr>))"

definition Product_reserve_stock :: "datetime \<Rightarrow> product \<Rightarrow> int \<Rightarrow> py_exn + bool \<times> product" where
  "Product_reserve_stock now p q =
     (if stock_quantity p < q then Inr (False, p)
      else and_then (Product_update_stock now p (- q)) (\<lambda>p'. Inr (True, p')))"

section \<open>OutboxEventRepository\<close>

text \<open>
  \<open>_row_to_event\<close> builds an \<open>OutboxEvent\<close> from a fetched row. The connection pool
  installs no codec for JSON columns, so \<open>row['event_data']\<close> is the stored text, a
  Python string, and the model class declares \<open>event_data: Dict[str, Any]\<close>: its
  validation takes a dictionary and raises \<open>ValidationError\<close> on anything else.
\<close>

fun validate_dict :: "json \<Rightarrow> py_exn + json" where
  "validate_dict (JObj kvs) = Inr (JObj kvs)"
| "validate_dict _ = Inl ValidationError"

definition row_to_event :: "string outbox_event \<Rightarrow> py_exn + json outbox_event" where
  "row_to_event row =
     and_then (validate_dict (JStr (event_data row))) (\<lambda>data.
       Inr \<lparr>event_id = event_id row, aggregate_id = aggregate_id row,
            aggregate_type = aggregate_type row, event_type = event_type row,
            event_data = data, event_created_at = event_created_at row,
            processed_at = processed_at row, status = status row,
            retry_count = retry_count row, max_retries = max_retries row\<rparr>)"

text \<open>A list comprehension over a function that may raise stops at the first exception.\<close>

fun comprehension :: "('a \<Rightarrow> py_exn + 'b) \<Rightarrow> 'a list \<Rightarrow> py_exn + 'b list" where
  "comprehension f [] = Inr []"
| "comprehension f (x # xs) =
     and_then (f x) (\<lambda>y. and_then (comprehension f xs) (\<lambda>ys. Inr (y # ys)))"

text \<open>
  \<open>SELECT ... FROM outbox_events WHERE status = 'PENDING' ORDER BY created_at ASC LIMIT $1\<close>
  for a limit that the statement accepts. Rows with equal \<open>created_at\<close> keep their
  insertion order here; SQL leaves their order open.
\<close>

definition pending_events_query :: "db \<Rightarrow> int \<Rightarrow> string outbox_event list" where
  "pending_events_query d limit =
     take (nat limit)
       (sort_key event_created_at
          (filter (\<lambda>e. status e = ''PENDING'') (outbox_events d)))"

text \<open>
  \<open>get_pending_events\<close>: the query, then \<open>_row_to_event\<close> on each fetched row. A limit
  outside \<open>bigint\<close> does not fit the parameter and PostgreSQL refuses a negative one.
\<close>

definition get_pending_events :: "bool \<Rightarrow> db \<Rightarrow> int \<Rightarrow> py_exn + json outbox_event list" where
  "get_pending_events up d limit =
     (if \<not> up then Inl InfrastructureError
      else if \<not> pg_bigint limit then Inl DataError
      else if limit < 0 then Inl DataError
      else comprehension row_to_event (pending_events_query d limit))"

text \<open>\<open>UPDATE outbox_events SET status = 'PROCESSED', processed_at = NOW() WHERE id = $1\<close>.\<close>

definition mark_as_processed :: "bool \<Rightarrow> datetime \<Rightarrow> db \<Rightarrow> uuid \<Rightarrow> (py_exn + bool) \<times> db" where
  "mark_as_processed up now d eid =
     (if \<not> up then (Inl InfrastructureError, d)
      else
        (let hit = (\<lambda>e. event_id e = eid);
             upd = (\<lambda>e. e\<lparr>status := ''PROCESSED'', processed_at := Some now\<rparr>)
         in (Inr (length (filter hit (outbox_events d)) = 1),
             d\<lparr>outbox_events := map (\<lambda>e. if hit e then upd e else e) (outbox_events d)\<rparr>)))"

text \<open>
  \<open>UPDATE outbox_events SET retry_count = retry_count + 1,
  status = CASE WHEN retry_count >= max_retries THEN 'FAILED' ELSE 'PENDING' END WHERE id = $1\<close>.
  Every expression on the right of \<open>SET\<close> reads the row as it was before the statement.
\<close>

definition increment_retry :: "bool \<Rightarrow> db \<Rightarrow> uuid \<Rightarrow> (py_exn + bool) \<times> db" where
  "increment_retry up d eid =
     (if \<not> up then (Inl InfrastructureError, d)
      else
        (let hit = (\<lambda>e. event_id e = eid);
             upd = (\<lambda>e. e\<lparr>retry_count := retry_count e + 1,
                          status := (if retry_count e \<ge> max_retries e
                                     then ''FAILED'' else ''PENDING'')\<rparr>)
         in (Inr (length (filter hit (outbox_events d)) = 1),
             d\<lparr>outbox_events := map (\<lambda>e. if hit e then upd e else e) (outbox_events d)\<rparr>)))"

text \<open>The domain object's \<open>OutboxEvent.increment_retry\<close>.\<close>

definition OutboxEvent_increment_retry :: "'d outbox_event \<Rightarrow> 'd outbox_event" where
  "OutboxEvent_increment_retry e =
     (let e1 = e\<lparr>retry_count := retry_count e + 1\<rparr>
      in if retry_count e1 \<ge> max_retries e1 then e1\<lparr>status := ''FAILED''\<rparr> else e1)"

section \<open>OrderRepository\<close>

text \<open>
  The schema is not part of the sources. The model takes \<open>id\<close> as the primary key of
  each table, which is what the statements rely on (\<open>WHERE id = $1\<close> compared with
  \<open>UPDATE 1\<close>): an \<open>INSERT\<close> of a key that is present raises an integrity error.
\<close>

definition order_insert_query :: "db \<Rightarrow> order \<Rightarrow> py_exn + order \<times> db" where
  "order_insert_query d ord =
     (if order_id ord \<in> set (map order_id (orders d))
      then Inl (IntegrityConstraintViolationError ''orders'')
      else Inr (ord, d\<lparr>orders := orders d @ [ord]\<rparr>))"

definition outbox_row :: "'d outbox_event \<Rightarrow> string \<Rightarrow> string outbox_event" where
  "outbox_row ev event_data_json =
     \<lparr>event_id = event_id ev, aggregate_id = aggregate_id ev,
      aggregate_type = aggregate_type ev, event_type = event_type ev,
      event_data = event_data_json, event_created_at = event_created_at ev,
      processed_at = processed_at ev, status = status ev,
      retry_count = retry_count ev, max_retries = max_retries ev\<rparr>"

definition outbox_insert_query :: "db \<Rightarrow> 'd outbox_event \<Rightarrow> string \<Rightarrow> py_exn + db" where
  "outbox_insert_query d ev event_data_json =
     (if event_id ev \<in> set (map event_id (outbox_events d))
      then Inl (IntegrityConstraintViolationError ''outbox_events'')
      else Inr (d\<lparr>outbox_events := outbox_events d @ [outbox_row ev event_data_json]\<rparr>))"

text \<open>\<open>UPDATE orders SET status = $2, updated_at = NOW() WHERE id = $1\<close>.\<close>

definition update_status :: "bool \<Rightarrow> datetime \<Rightarrow> db \<Rightarrow> uuid \<Rightarrow> OrderStatus \<Rightarrow> (py_exn + bool) \<times> db" where
  "update_status up now d oid new_status =
     (if \<not> up then (Inl InfrastructureError, d)
      else
        (let hit = (\<lambda>r. order_id r = oid);
             upd = (\<lambda>r. r\<lparr>order_status := new_status, order_updated_at := now\<rparr>)
         in (Inr (length (filter hit (orders d)) = 1),
             d\<lparr>orders := map (\<lambda>r. if hit r then upd r else r) (orders d)\<rparr>)))"

text \<open>
  \<open>create_with_outbox_event\<close>. The payload is serialised before the connection is
  taken. The arguments \<open>product_id\<close> and \<open>quantity\<close> default to \<open>None\<close>; a UUID
  object is always truthy, so \<open>if product_id and quantity is not None\<close> asks whether
  both were given.
\<close>

definition create_with_outbox_event ::
  "(json \<Rightarrow> py_exn + string) \<Rightarrow> bool \<Rightarrow> datetime \<Rightarrow> db \<Rightarrow> order \<Rightarrow> json outbox_event \<Rightarrow>
   uuid option \<Rightarrow> int option \<Rightarrow> (py_exn + order) \<times> db" where
  "create_with_outbox_event orjson_dumps up now d ord outbox_ev product_id_arg quantity_arg =
     (case orjson_dumps (event_data outbox_ev) of
        Inl e \<Rightarrow> (Inl e, d)
      | Inr event_data_json \<Rightarrow>
          if \<not> up then (Inl InfrastructureError, d)
          else transaction (\<lambda>d0.
            and_then
              (case (product_id_arg, quantity_arg) of
                 (Some pid, Some q) \<Rightarrow>
                   and_then (stock_reserve_query now d0 pid q)
                     (\<lambda>(stock_row, d1).
                        case stock_row of
                          None \<Rightarrow> Inl InsufficientStockError
                        | Some _ \<Rightarrow> Inr d1)
               | _ \<Rightarrow> Inr d0)
              (\<lambda>d1. and_then (order_insert_query d1 ord)
                (\<lambda>(order_row, d2). and_then (outbox_insert_query d2 outbox_ev event_data_json)
                  (\<lambda>d3. Inr (order_row, d3))))) d)"

definition get_by_id :: "bool \<Rightarrow> db \<Rightarrow> uuid \<Rightarrow> py_exn + product option" where
  "get_by_id up d pid =
     (if \<not> up then Inl InfrastructureError
      else Inr (find (\<lambda>p. prod_id p = pid) (products d)))"

section \<open>Domain constructors and CreateOrderUseCase\<close>

text \<open>\<open>Order.create_new\<close>, given the results of \<open>uuid4()\<close> and \<open>datetime.utcnow()\<close>.\<close>

definition Order_create_new :: "uuid \<Rightarrow> datetime \<Rightarrow> uuid \<Rightarrow> uuid \<Rightarrow> int \<Rightarrow> rat \<Rightarrow> order" where
  "Order_create_new new_id now cid pid q amount =
     \<lparr>order_id = new_id, customer_id = cid, product_id = pid, quantity = q,
      total_amount = amount, order_status = PENDING,
      order_created_at = now, order_updated_at = now\<rparr>"

definition json_opt_str :: "string option \<Rightarrow> json" where
  "json_opt_str s = (case s of None \<Rightarrow> JNull | Some t \<Rightarrow> JStr t)"

text \<open>
  \<open>OutboxEvent.create_order_created_event\<close>; the fields left out of the constructor call
  take their class defaults (\<open>processed_at = None\<close>, \<open>status = "PENDING"\<close>,
  \<open>retry_count = 0\<close>, \<open>max_retries = 3\<close>).
\<close>

definition create_order_created_event ::
  "uuid \<Rightarrow> datetime \<Rightarrow> (datetime \<Rightarrow> string) \<Rightarrow> order \<Rightarrow> string option \<Rightarrow> string option \<Rightarrow>
   json outbox_event" where
  "create_order_created_event new_id now isoformat ord trace_id span_id =
     \<lparr>event_id = new_id, aggregate_id = order_id ord, aggregate_type = ''Order'',
      event_type = ''order.created'',
      event_data = JObj
        [(''order_id'', JStr (order_id ord)),
         (''customer_id'', JStr (customer_id ord)),
         (''product_id'', JStr (product_id ord)),
         (''quantity'', JInt (quantity ord)),
         (''total_amount'', JFloat (total_amount ord)),
         (''created_at'', JStr (isoformat (order_created_at ord))),
         (''trace_id'', json_opt_str trace_id),
         (''span_id'', json_opt_str span_id)],
      event_created_at = now, processed_at = None, status = ''PENDING'',
      retry_count = 0, max_retries = 3\<rparr>"

record OrderCreateRequest =
  req_customer_id :: uuid
  req_product_id :: uuid
  req_quantity :: int
  req_total_amount :: rat

text \<open>
  \<open>_validate_order_data\<close>. Its last two checks, \<open>if not request.customer_id\<close> and
  \<open>if not request.product_id\<close>, never fire on the UUID objects that the request model
  requires, and have no branch here.
\<close>

definition validate_order_data :: "OrderCreateRequest \<Rightarrow> py_exn + unit" where
  "validate_order_data req =
     (if req_quantity req \<le> 0 then Inl (InvalidOrderDataError ''Quantity must be greater than 0'')
      else if req_quantity req > 1000
        then Inl (InvalidOrderDataError ''Quantity cannot exceed 1000 items'')
      else if req_total_amount req \<le> 0
        then Inl (InvalidOrderDataError ''Total amount must be greater than 0'')
      else if req_total_amount req > 100000
        then Inl (InvalidOrderDataError ''Total amount cannot exceed $100,000'')
      else Inr ())"

text \<open>What \<open>execute\<close> takes from its surroundings: fresh identifiers, clocks, the
  serialiser, and whether each of its two database connections works.\<close>

record env =
  uuid4_order :: uuid
  uuid4_event :: uuid
  utcnow_order :: datetime
  utcnow_event :: datetime
  db_now :: datetime
  isoformat :: "datetime \<Rightarrow> string"
  orjson_dumps :: "json \<Rightarrow> py_exn + string"
  conn_lookup :: bool
  conn_commit :: bool

text \<open>\<open>CreateOrderUseCase.execute\<close>; the response repeats the fields of the saved order.\<close>

definition execute ::
  "env \<Rightarrow> db \<Rightarrow> OrderCreateRequest \<Rightarrow> string option \<Rightarrow> string option \<Rightarrow> (py_exn + order) \<times> db" where
  "execute E d req trace_id span_id =
     (case validate_order_data req of
        Inl e \<Rightarrow> (Inl e, d)
      | Inr _ \<Rightarrow>
        (case get_by_id (conn_lookup E) d (req_product_id req) of
           Inl e \<Rightarrow> (Inl e, d)
         | Inr None \<Rightarrow>
             (Inl (InvalidOrderDataError (''Product not found: '' @ req_product_id req)), d)
         | Inr (Some _) \<Rightarrow>
             (let ord = Order_create_new (uuid4_order E) (utcnow_order E)
                          (req_customer_id req) (req_product_id req)
                          (req_quantity req) (req_total_amount req);
                  outbox_ev = create_order_created_event (uuid4_event E) (utcnow_event E)
                                (isoformat E) ord trace_id span_id
              in create_with_outbox_event (orjson_dumps E) (conn_commit E) (db_now E) d
                   ord outbox_ev (Some (req_product_id req)) (Some (req_quantity req)))))"

section \<open>InventoryEventConsumer\<close>

text \<open>Python's truth value of a decoded JSON value.\<close>

fun py_truthy :: "json \<Rightarrow> bool" where
  "py_truthy JNull = False"
| "py_truthy (JBool b) = b"
| "py_truthy (JInt n) = (n \<noteq> 0)"
| "py_truthy (JFloat x) = (x \<noteq> 0)"
| "py_truthy (JStr s) = (s \<noteq> [])"
| "py_truthy (JArr xs) = (xs \<noteq> [])"
| "py_truthy (JObj kvs) = (kvs \<noteq> [])"

text \<open>\<open>event_data.get(key)\<close>: only a dictionary has the method.\<close>

fun dict_get :: "json \<Rightarrow> string \<Rightarrow> py_exn + json" where
  "dict_get (JObj kvs) k = Inr (case map_of kvs k of None \<Rightarrow> JNull | Some v \<Rightarrow> v)"
| "dict_get _ k = Inl AttributeError"

text \<open>
  \<open>UUID(order_id)\<close>: the constructor calls \<open>hex.replace\<close> on its argument, which only a
  string has; on a string it raises \<open>ValueError\<close> when the text is not a UUID. The reading
  of the text is a parameter.
\<close>

fun UUID :: "(string \<Rightarrow> uuid option) \<Rightarrow> json \<Rightarrow> py_exn + uuid" where
  "UUID parse_hex (JStr s) = (case parse_hex s of None \<Rightarrow> Inl ValueError | Some u \<Rightarrow> Inr u)"
| "UUID parse_hex _ = Inl AttributeError"

text \<open>\<open>JSONDecodeError\<close> and \<open>UnicodeDecodeError\<close> are subclasses of \<open>ValueError\<close>.\<close>

definition is_ValueError :: "py_exn \<Rightarrow> bool" where
  "is_ValueError e = (e = ValueError \<or> e = JSONDecodeError \<or> e = UnicodeDecodeError)"

text \<open>What \<open>async with message.process()\<close> tells the broker when the block is left:
  an acknowledgement on a normal exit, a rejection when an exception leaves it.\<close>

datatype delivery = Acked | Rejected

text \<open>\<open>event_data.get("orderId") or event_data.get("order_id")\<close>.\<close>

definition get_order_id :: "json \<Rightarrow> py_exn + json" where
  "get_order_id ev_data =
     and_then (dict_get ev_data ''orderId'') (\<lambda>camel.
       if py_truthy camel then Inr camel else dict_get ev_data ''order_id'')"

text \<open>
  The \<open>try\<close> block shared, up to two constants, by \<open>process_reserved_message\<close> and
  \<open>process_rejected_message\<close>. \<open>loads\<close> stands for
  \<open>json.loads(message.body.decode())\<close>.
\<close>

definition feedback_try ::
  "string \<Rightarrow> OrderStatus \<Rightarrow> (string \<Rightarrow> py_exn + json) \<Rightarrow> (string \<Rightarrow> uuid option) \<Rightarrow>
   bool \<Rightarrow> datetime \<Rightarrow> db \<Rightarrow> string \<Rightarrow> py_exn + db" where
  "feedback_try expected new_status loads parse_hex up now d body =
     and_then (loads body) (\<lambda>ev_data.
     and_then (get_order_id ev_data) (\<lambda>order_id_val.
     and_then (dict_get ev_data ''status'') (\<lambda>status_val.
       if \<not> py_truthy order_id_val then Inr d
       else if status_val \<noteq> JStr expected then Inr d
       else and_then (UUID parse_hex order_id_val) (\<lambda>order_uuid.
         (case update_status up now d order_uuid new_status of
            (Inl e, _) \<Rightarrow> Inl e
          | (Inr success, d') \<Rightarrow> Inr d')))))"

text \<open>The \<open>except\<close> clauses: decode and value errors are logged and swallowed, anything
  else is raised again.\<close>

definition feedback_message ::
  "string \<Rightarrow> OrderStatus \<Rightarrow> (string \<Rightarrow> py_exn + json) \<Rightarrow> (string \<Rightarrow> uuid option) \<Rightarrow>
   bool \<Rightarrow> datetime \<Rightarrow> db \<Rightarrow> string \<Rightarrow> delivery \<times> db" where
  "feedback_message expected new_status loads parse_hex up now d body =
     (case feedback_try expected new_status loads parse_hex up now d body of
        Inr d' \<Rightarrow> (Acked, d')
      | Inl e \<Rightarrow>
          if e = JSONDecodeError then (Acked, d)
          else if is_ValueError e then (Acked, d)
          else (Rejected, d))"

text \<open>
  The order that a message addresses once it has passed every check of the \<open>try\<close>
  block; \<open>None\<close> when some check stops it. The function is not in the sources: it is
  used to state what the handlers do.
\<close>

definition feedback_target ::
  "string \<Rightarrow> (string \<Rightarrow> py_exn + json) \<Rightarrow> (string \<Rightarrow> uuid option) \<Rightarrow> string \<Rightarrow> uuid option" where
  "feedback_target expected loads parse_hex raw =
     (case loads raw of Inl _ \<Rightarrow> None
      | Inr ev \<Rightarrow>
        (case get_order_id ev of Inl _ \<Rightarrow> None
         | Inr v \<Rightarrow>
           (case dict_get ev ''status'' of Inl _ \<Rightarrow> None
            | Inr st \<Rightarrow>
               if \<not> py_truthy v \<or> st \<noteq> JStr expected then None
               else (case UUID parse_hex v of Inl _ \<Rightarrow> None | Inr u \<Rightarrow> Some u))))"

definition process_reserved_message ::
  "(string \<Rightarrow> py_exn + json) \<Rightarrow> (string \<Rightarrow> uuid option) \<Rightarrow> bool \<Rightarrow> datetime \<Rightarrow> db \<Rightarrow> string \<Rightarrow>
   delivery \<times> db" where
  "process_reserved_message = feedback_message ''reserved'' COMPLETED"

definition process_rejected_message ::
  "(string \<Rightarrow> py_exn + json) \<Rightarrow> (string \<Rightarrow> uuid option) \<Rightarrow> bool \<Rightarrow> datetime \<Rightarrow> db \<Rightarrow> string \<Rightarrow>
   delivery \<times> db" where
  "process_rejected_message = feedback_message ''rejected'' FAILED"

section \<open>RabbitMQEventPublisher\<close>

datatype DeliveryMode = NOT_PERSISTENT | PERSISTENT

record message =
  body :: string
  delivery_mode :: DeliveryMode
  message_id :: string
  headers :: "(string \<times> string) list"

text \<open>An exchange of the channel: the broker's nameless default exchange, or one that
  was declared under a name.\<close>

datatype exchange = default_exchange | declared_exchange string

record channel =
  is_closed :: bool
  durable_topic_exchanges :: "string list"

record publication =
  pub_exchange :: exchange
  pub_routing_key :: string
  pub_message :: message

record broker =
  connect_ok :: bool
  publish_ok :: bool

text \<open>\<open>connect\<close> opens a channel and declares the durable topic exchange \<open>amq.topic\<close>.\<close>

definition connect :: "broker \<Rightarrow> py_exn + channel" where
  "connect B =
     (if connect_ok B
      then Inr \<lparr>is_closed = False, durable_topic_exchanges = [''amq.topic'']\<rparr>
      else Inl InfrastructureError)"

definition routing_keys :: "(string \<times> string) list" where
  "routing_keys =
     [(''order.created'', ''order.created''),
      (''payment.authorized'', ''payment.authorized''),
      (''payment.declined'', ''payment.declined''),
      (''inventory.reserved'', ''inventory.reserved''),
      (''inventory.rejected'', ''inventory.rejected''),
      (''notification.sent'', ''notification.sent'')]"

definition get_routing_key :: "string \<Rightarrow> string" where
  "get_routing_key ev_type =
     (case map_of routing_keys ev_type of Some k \<Rightarrow> k | None \<Rightarrow> ev_type)"

definition exchange_publish ::
  "broker \<Rightarrow> exchange \<Rightarrow> message \<Rightarrow> string \<Rightarrow> py_exn + publication" where
  "exchange_publish B x m routing_key =
     (if publish_ok B
      then Inr \<lparr>pub_exchange = x, pub_routing_key = routing_key, pub_message = m\<rparr>
      else Inl InfrastructureError)"

text \<open>
  \<open>publish_event\<close>: the result, what reached the broker, and the publisher's channel
  afterwards. \<open>json_dumps\<close> stands for \<open>json.dumps(...).encode()\<close>.
\<close>

definition publish_event ::
  "(json \<Rightarrow> py_exn + string) \<Rightarrow> broker \<Rightarrow> channel option \<Rightarrow> json outbox_event \<Rightarrow>
   bool \<times> publication option \<times> channel option" where
  "publish_event json_dumps B chan ev =
     (case (case chan of
              None \<Rightarrow> connect B
            | Some c \<Rightarrow> if is_closed c then connect B else Inr c) of
        Inl e \<Rightarrow> (False, None, chan)
      | Inr c \<Rightarrow>
          (let routing_key = get_routing_key (event_type ev) in
           (case and_then (json_dumps (event_data ev)) (\<lambda>payload.
                   exchange_publish B default_exchange
                     \<lparr>body = payload, delivery_mode = PERSISTENT,
                      message_id = event_id ev,
                      headers = [(''event_type'', event_type ev),
                                 (''aggregate_id'', aggregate_id ev),
                                 (''aggregate_type'', aggregate_type ev)]\<rparr>
                     routing_key) of
              Inl e \<Rightarrow> (False, None, Some c)
            | Inr p \<Rightarrow> (True, Some p, Some c))))"

section \<open>Sample data\<close>

definition demo_product :: product where
  "demo_product =
     \<lparr>prod_id = ''p1'', name = ''widget'', description = None, price = 4999 / 100,
      sku = None, stock_quantity = 5, prod_created_at = 1, prod_updated_at = 1\<rparr>"

definition demo_db :: db where
  "demo_db = \<lparr>orders = [], outbox_events = [], products = [demo_product]\<rparr>"

definition demo_order :: order where
  "demo_order =
     \<lparr>order_id = ''o1'', customer_id = ''c1'', product_id = ''p1'', quantity = 2,
      total_amount = 9998 / 100, order_status = COMPLETED,
      order_created_at = 1, order_updated_at = 2\<rparr>"

definition demo_event_row :: "string outbox_event" where
  "demo_event_row =
     \<lparr>event_id = ''e1'', aggregate_id = ''o1'', aggregate_type = ''Order'',
      event_type = ''order.created'', event_data = ''{}'', event_created_at = 1,
      processed_at = None, status = ''PENDING'', retry_count = 2, max_retries = 3\<rparr>"

definition demo_event :: "json outbox_event" where
  "demo_event =
     create_order_created_event ''e1'' 3 (\<lambda>t. ''t'') (demo_order\<lparr>order_status := PENDING\<rparr>) None None"

definition demo_outbox :: "string outbox_event list" where
  "demo_outbox =
     [demo_event_row\<lparr>event_id := ''e3'', event_created_at := 5\<rparr>,
      demo_event_row\<lparr>event_id := ''e0'', event_created_at := 0, status := ''FAILED'',
                     retry_count := 4\<rparr>,
      demo_event_row]"

definition demo_env :: env where
  "demo_env =
     \<lparr>uuid4_order = ''o9'', uuid4_event = ''e9'', utcnow_order = 10, utcnow_event = 11,
      db_now = 12, isoformat = (\<lambda>t. ''t''), orjson_dumps = (\<lambda>j. Inr ''{}''),
      conn_lookup = True, conn_commit = True\<rparr>"

definition demo_request :: OrderCreateRequest where
  "demo_request =
     \<lparr>req_customer_id = ''c1'', req_product_id = ''p1'', req_quantity = 2,
      req_total_amount = 9998 / 100\<rparr>"

section \<open>Tables with a primary key\<close>

lemma find_map_key:
  assumes "\<And>x. key (f x) = key x"
  shows "find (\<lambda>x. key x = k) (map f xs) = map_option f (find (\<lambda>x. key x = k) xs)"
  using assms by (induction xs) auto

lemma filter_key_distinct:
  assumes "distinct (map key xs)" and "find (\<lambda>x. key x = k) xs = Some r"
  shows "filter (\<lambda>x. key x = k \<and> P x) xs = (if P r then [r] else [])"
  using assms
proof (induction xs)
  case Nil
  then show ?case by simp
next
  case (Cons a xs)
  show ?case
  proof (cases "key a = k")
    case True
    then have ar: "a = r" using Cons.prems(2) by simp
    have "k \<notin> key ` set xs" using Cons.prems(1) True by auto
    then have "filter (\<lambda>x. key x = k \<and> P x) xs = []"
      by (auto simp: filter_empty_conv)
    then show ?thesis using True ar by simp
  next
    case False
    then show ?thesis using Cons by simp
  qed
qed

lemma filter_key_absent:
  assumes "find (\<lambda>x. key x = k) xs = None"
  shows "filter (\<lambda>x. key x = k \<and> P x) xs = []"
  using assms by (induction xs) (auto split: if_splits)

lemma map_if_none:
  assumes "filter hit xs = []"
  shows "map (\<lambda>x. if hit x then f x else x) xs = xs"
  using assms by (induction xs) (auto split: if_splits)



lemma products_reserve:
  "products (snd (stock_reserve_update now d pid q)) =
     map (\<lambda>p. if prod_id p = pid \<and> q \<le> stock_quantity p
               then p\<lparr>stock_quantity := stock_quantity p - q, prod_updated_at := now\<rparr>
               else p) (products d)"
  by (simp add: stock_reserve_update_def Let_def)

lemma stock_of_reserve:
  "stock_of (snd (stock_reserve_update now d pid q)) k =
     map_option (\<lambda>s. if k = pid \<and> q \<le> s then s - q else s) (stock_of d k)"
proof -
  let ?f = "\<lambda>p. if prod_id p = pid \<and> q \<le> stock_quantity p
                 then p\<lparr>stock_quantity := stock_quantity p - q, prod_updated_at := now\<rparr> else p"
  have key: "\<And>x. prod_id (?f x) = prod_id x" by simp
  have fm: "find (\<lambda>p. prod_id p = k) (map ?f (products d))
          = map_option ?f (find (\<lambda>p. prod_id p = k) (products d))"
    using key by (rule find_map_key)
  show ?thesis
  proof (cases "find (\<lambda>p. prod_id p = k) (products d)")
    case None
    then show ?thesis unfolding stock_of_def products_reserve fm by simp
  next
    case (Some r)
    then have "prod_id r = k" by (auto simp: find_Some_iff)
    then show ?thesis unfolding stock_of_def products_reserve fm Some by simp
  qed
qed


lemma reserve_query_fst:
  assumes "distinct (map prod_id (products d))" and "stock_of d pid = Some s"
  shows "fst (stock_reserve_update now d pid q) = (if q \<le> s then Some (s - q) else None)"
proof -
  obtain r where r: "find (\<lambda>p. prod_id p = pid) (products d) = Some r" "stock_quantity r = s"
    using assms(2) by (auto simp: stock_of_def)
  have "filter (\<lambda>p. prod_id p = pid \<and> q \<le> stock_quantity p) (products d)
          = (if q \<le> s then [r] else [])"
    using filter_key_distinct[OF assms(1) r(1), of "\<lambda>p. q \<le> stock_quantity p"] r(2) by simp
  then show ?thesis
    using r(2) by (simp add: stock_reserve_update_def Let_def fetchrow_def)
qed

lemma reserve_query_fst_absent:
  assumes "stock_of d pid = None"
  shows "fst (stock_reserve_update now d pid q) = None"
proof -
  have "find (\<lambda>p. prod_id p = pid) (products d) = None"
    using assms by (simp add: stock_of_def)
  then have "filter (\<lambda>p. prod_id p = pid \<and> q \<le> stock_quantity p) (products d) = []"
    by (rule filter_key_absent)
  then show ?thesis by (simp add: stock_reserve_update_def Let_def fetchrow_def)
qed

lemma reserve_query_none_same:
  assumes "fst (stock_reserve_update now d pid q) = None"
  shows "snd (stock_reserve_update now d pid q) = d"
proof -
  have "filter (\<lambda>p. prod_id p = pid \<and> q \<le> stock_quantity p) (products d) = []"
    using assms by (simp add: stock_reserve_update_def Let_def fetchrow_def split: list.splits)
  then have "map (\<lambda>p. if prod_id p = pid \<and> q \<le> stock_quantity p
               then p\<lparr>stock_quantity := stock_quantity p - q, prod_updated_at := now\<rparr>
               else p) (products d) = products d"
    by (rule map_if_none)
  then show ?thesis by (simp add: stock_reserve_update_def Let_def)
qed

lemma reserve_overflow_distinct:
  assumes "distinct (map prod_id (products d))" and "stock_of d pid = Some s"
  shows "list_ex (\<lambda>p. prod_id p = pid \<and> stock_quantity p \<ge> q
                      \<and> pg_integer (stock_quantity p)
                      \<and> \<not> pg_integer (stock_quantity p - q)) (products d)
           = (q \<le> s \<and> pg_integer s \<and> \<not> pg_integer (s - q))"
proof -
  obtain r where r: "find (\<lambda>p. prod_id p = pid) (products d) = Some r" "stock_quantity r = s"
    using assms(2) by (auto simp: stock_of_def)
  let ?Q = "\<lambda>p. stock_quantity p \<ge> q \<and> pg_integer (stock_quantity p)
                  \<and> \<not> pg_integer (stock_quantity p - q)"
  have f: "filter (\<lambda>p. prod_id p = pid \<and> ?Q p) (products d) = (if ?Q r then [r] else [])"
    using assms(1) r(1) by (rule filter_key_distinct)
  have "list_ex (\<lambda>p. prod_id p = pid \<and> ?Q p) (products d)
          = (filter (\<lambda>p. prod_id p = pid \<and> ?Q p) (products d) \<noteq> [])"
    by (auto simp: list_ex_iff filter_empty_conv)
  then show ?thesis unfolding f using r(2) by simp
qed

lemma stock_reserve_query_runs:
  assumes "distinct (map prod_id (products d))" and "stock_of d pid = Some s"
    and "pg_integer q" and "q \<le> s \<and> pg_integer s \<longrightarrow> pg_integer (s - q)"
  shows "stock_reserve_query now d pid q = Inr (stock_reserve_update now d pid q)"
  unfolding stock_reserve_query_def reserve_overflow_distinct[OF assms(1,2)]
  using assms(3,4) by auto

lemma stock_reserve_query_refused:
  assumes "\<not> pg_integer q"
  shows "stock_reserve_query now d pid q = Inl DataError"
  using assms by (simp add: stock_reserve_query_def)

lemma reserve_stock_unfold:
  assumes "stock_reserve_query now d pid q = Inr (stock_reserve_update now d pid q)"
  shows "reserve_stock True now d pid q =
     (Inr (fst (stock_reserve_update now d pid q) \<noteq> None),
      snd (stock_reserve_update now d pid q))"
  unfolding reserve_stock_def assms
  by (cases "stock_reserve_update now d pid q") (auto split: option.splits)

section \<open>Stock reservation\<close>

text \<open>
  Claim C2. For a product whose available quantity is \<open>s\<close> and a quantity \<open>q\<close> that
  fits the \<open>integer\<close> parameter of the statement, with a decrement that keeps a stock
  within the range of the column in that range, \<open>reserve_stock\<close> with a working connection returns \<open>True\<close>
  exactly when \<open>q \<le> s\<close>; then the available quantity becomes \<open>s - q\<close>, otherwise the
  result is \<open>False\<close>, not an exception, and the database is as it was. The stock of every
  other product is untouched. Test and decrement are the one conditional update
  \<open>stock_reserve_query\<close>. A quantity that does not fit the parameter is refused with
  \<open>DataError\<close> and nothing changes.
\<close>

theorem reserve_stock_conditional:
  assumes "distinct (map prod_id (products d))" and "stock_of d pid = Some s"
    and "pg_integer q" and "q \<le> s \<and> pg_integer s \<longrightarrow> pg_integer (s - q)"
  shows "(\<exists>d'. reserve_stock True now d pid q = (Inr (q \<le> s), d')
           \<and> stock_of d' pid = Some (if q \<le> s then s - q else s)
           \<and> (\<not> q \<le> s \<longrightarrow> d' = d)
           \<and> (\<forall>k. k \<noteq> pid \<longrightarrow> stock_of d' k = stock_of d k))
       \<and> (\<forall>q'. \<not> pg_integer q' \<longrightarrow> reserve_stock True now d pid q' = (Inl DataError, d))"
proof -
  let ?d' = "snd (stock_reserve_update now d pid q)"
  have runs: "stock_reserve_query now d pid q = Inr (stock_reserve_update now d pid q)"
    using assms by (rule stock_reserve_query_runs)
  have fstq: "fst (stock_reserve_update now d pid q) = (if q \<le> s then Some (s - q) else None)"
    using assms(1,2) by (rule reserve_query_fst)
  have res: "reserve_stock True now d pid q = (Inr (q \<le> s), ?d')"
    unfolding reserve_stock_unfold[OF runs] fstq by simp
  have same: "\<not> q \<le> s \<longrightarrow> ?d' = d"
    using fstq reserve_query_none_same[of now d pid q] by simp
  have st: "stock_of ?d' pid = Some (if q \<le> s then s - q else s)"
    unfolding stock_of_reserve assms(2) by simp
  have oth: "\<forall>k. k \<noteq> pid \<longrightarrow> stock_of ?d' k = stock_of d k"
  proof (intro allI impI)
    fix k assume "k \<noteq> pid"
    then show "stock_of ?d' k = stock_of d k"
      unfolding stock_of_reserve by (cases "stock_of d k") simp_all
  qed
  have refused: "\<forall>q'. \<not> pg_integer q' \<longrightarrow>
                   reserve_stock True now d pid q' = (Inl DataError, d)"
    by (simp add: reserve_stock_def stock_reserve_query_refused)
  show ?thesis using res same st oth refused by blast
qed

theorem reserve_stock_conditional_witness:
  "\<exists>d'. reserve_stock True 9 demo_db ''p1'' 2 = (Inr True, d') \<and> stock_of d' ''p1'' = Some 3"
proof -
  have h1: "distinct (map prod_id (products demo_db))"
    by (simp add: demo_db_def)
  have h2: "stock_of demo_db ''p1'' = Some 5"
    by (simp add: stock_of_def demo_db_def demo_product_def)
  have h3: "pg_integer 2" by (simp add: pg_integer_def)
  have h4: "(2::int) \<le> 5 \<and> pg_integer 5 \<longrightarrow> pg_integer (5 - 2)"
    by (simp add: pg_integer_def)
  show ?thesis
    using reserve_stock_conditional [OF h1 h2 h3 h4, of 9] by auto
qed

text \<open>
  A quantity of \<open>2^63\<close> against a stock of 5 is not answered with \<open>False\<close>: the call
  raises \<open>DataError\<close>.
\<close>

theorem reserve_stock_raises_out_of_range:
  "reserve_stock True 9 demo_db ''p1'' 9223372036854775808 = (Inl DataError, demo_db)"
  by (simp add: reserve_stock_def stock_reserve_query_def pg_integer_def)

section \<open>Stock non-negativity\<close>

text \<open>
  Claim C5. The repository's \<open>update_stock\<close> adds the quantity without a guard and only
  afterwards looks at the sign of what it stored: on a product with 5 in stock, a change of
  \<open>-10\<close> returns \<open>False\<close> and leaves \<open>-5\<close> in the table for every reader, where
  the domain object's \<open>Product.update_stock\<close> raises instead of going below zero.
\<close>

theorem update_stock_goes_negative:
  "update_stock True 9 demo_db ''p1'' (- 10)
     = (Inr False, demo_db\<lparr>products := [demo_product\<lparr>stock_quantity := - 5, prod_updated_at := 9\<rparr>]\<rparr>)
   \<and> stock_of (snd (update_stock True 9 demo_db ''p1'' (- 10))) ''p1'' = Some (- 5)
   \<and> Product_update_stock 9 demo_product (- 10) = Inl ValueError"
  by (simp add: update_stock_def Product_update_stock_def stock_of_def demo_db_def
        demo_product_def Let_def fetchrow_def pg_integer_def)

section \<open>Outbox retries and polling\<close>

lemma increment_retry_rows:
  "outbox_events (snd (increment_retry True d eid)) =
     map (\<lambda>e. if event_id e = eid
               then e\<lparr>retry_count := retry_count e + 1,
                      status := (if retry_count e \<ge> max_retries e then ''FAILED'' else ''PENDING'')\<rparr>
               else e) (outbox_events d)"
  unfolding increment_retry_def Let_def by simp

lemma increment_retry_status:
  assumes "e \<in> set (outbox_events (snd (increment_retry True d eid)))" and "event_id e = eid"
  shows "status e = (if retry_count e > max_retries e then ''FAILED'' else ''PENDING'')"
proof -
  obtain x where e: "e = (if event_id x = eid
               then x\<lparr>retry_count := retry_count x + 1,
                      status := (if retry_count x \<ge> max_retries x then ''FAILED'' else ''PENDING'')\<rparr>
               else x)"
    using assms(1) unfolding increment_retry_rows set_map by blast
  show ?thesis
  proof (cases "event_id x = eid")
    case True
    then have e': "e = x\<lparr>retry_count := retry_count x + 1,
                      status := (if retry_count x \<ge> max_retries x then ''FAILED'' else ''PENDING'')\<rparr>"
      using e by simp
    show ?thesis
    proof (cases "retry_count x \<ge> max_retries x")
      case True
      then show ?thesis unfolding e' by simp
    next
      case False
      then show ?thesis unfolding e' by simp
    qed
  next
    case False
    then have "e = x" using e by simp
    then show ?thesis using False assms(2) by simp
  qed
qed

text \<open>
  Once every row of an event id has used up its retries and is no longer pending, further
  calls of \<open>increment_retry\<close> and \<open>mark_as_processed\<close>, on this or any other id,
  keep it so.
\<close>

lemma mark_as_processed_rows:
  "outbox_events (snd (mark_as_processed True now d eid)) =
     map (\<lambda>e. if event_id e = eid then e\<lparr>status := ''PROCESSED'', processed_at := Some now\<rparr>
               else e) (outbox_events d)"
  unfolding mark_as_processed_def Let_def by simp

lemma exhausted_after_increment_retry:
  assumes inv: "\<forall>e\<in>set (outbox_events d). event_id e = k \<longrightarrow>
                  max_retries e \<le> retry_count e \<and> status e \<noteq> ''PENDING''"
    and e: "e \<in> set (outbox_events (snd (increment_retry True d eid)))" and k: "event_id e = k"
  shows "max_retries e \<le> retry_count e \<and> status e \<noteq> ''PENDING''"
proof -
  obtain x where x: "x \<in> set (outbox_events d)" and ex: "e = (if event_id x = eid
               then x\<lparr>retry_count := retry_count x + 1,
                      status := (if retry_count x \<ge> max_retries x then ''FAILED'' else ''PENDING'')\<rparr>
               else x)"
    using e unfolding increment_retry_rows set_map by blast
  have idx: "event_id x = k" using ex k by (cases "event_id x = eid") simp_all
  then have old: "max_retries x \<le> retry_count x" "status x \<noteq> ''PENDING''"
    using inv x by blast+
  show ?thesis
  proof (cases "event_id x = eid")
    case True
    then have "e = x\<lparr>retry_count := retry_count x + 1, status := ''FAILED''\<rparr>"
      using ex old(1) by simp
    then show ?thesis using old(1) by simp
  next
    case False
    then show ?thesis using ex old by simp
  qed
qed

lemma exhausted_after_mark_as_processed:
  assumes inv: "\<forall>e\<in>set (outbox_events d). event_id e = k \<longrightarrow>
                  max_retries e \<le> retry_count e \<and> status e \<noteq> ''PENDING''"
    and e: "e \<in> set (outbox_events (snd (mark_as_processed True now d eid)))"
    and k: "event_id e = k"
  shows "max_retries e \<le> retry_count e \<and> status e \<noteq> ''PENDING''"
proof -
  obtain x where x: "x \<in> set (outbox_events d)" and ex: "e = (if event_id x = eid
               then x\<lparr>status := ''PROCESSED'', processed_at := Some now\<rparr> else x)"
    using e unfolding mark_as_processed_rows set_map by blast
  have idx: "event_id x = k" using ex k by (cases "event_id x = eid") simp_all
  then have old: "max_retries x \<le> retry_count x" "status x \<noteq> ''PENDING''"
    using inv x by blast+
  show ?thesis
  proof (cases "event_id x = eid")
    case True
    then have "e = x\<lparr>status := ''PROCESSED'', processed_at := Some now\<rparr>"
      using ex by simp
    then show ?thesis using old(1) by simp
  next
    case False
    then show ?thesis using ex old by simp
  qed
qed

text \<open>
  Claim C3. The repository's \<open>increment_retry\<close> decides the new status from the retry
  count before the increment: an event at \<open>retry_count = 2\<close> of \<open>max_retries = 3\<close> comes
  out with \<open>retry_count = 3\<close> and status \<open>PENDING\<close>, where the claim and the domain
  object's \<open>OutboxEvent.increment_retry\<close> make it \<open>FAILED\<close>.
\<close>

theorem increment_retry_at_cap:
  "increment_retry True (demo_db\<lparr>outbox_events := [demo_event_row]\<rparr>) ''e1''
     = (Inr True, demo_db\<lparr>outbox_events := [demo_event_row\<lparr>retry_count := 3\<rparr>]\<rparr>)
   \<and> status (demo_event_row\<lparr>retry_count := 3\<rparr>) = ''PENDING''
   \<and> max_retries demo_event_row = 3
   \<and> status (OutboxEvent_increment_retry demo_event_row) = ''FAILED''"
  by (simp add: increment_retry_def OutboxEvent_increment_retry_def demo_db_def
        demo_event_row_def Let_def)

lemma take_sorted_le_rest:
  assumes "sorted (map f xs)" and "r \<in> set (take n xs)" and "e \<in> set xs" and "e \<notin> set (take n xs)"
  shows "f r \<le> f e"
proof -
  have "set xs = set (take n xs) \<union> set (drop n xs)"
    by (simp add: set_append[symmetric] del: set_append)
  then have e: "e \<in> set (drop n xs)" using assms(3,4) by blast
  have "sorted (map f (take n xs) @ map f (drop n xs))"
    using assms(1) by (simp add: map_append[symmetric] del: map_append)
  then have "\<forall>x\<in>set (map f (take n xs)). \<forall>y\<in>set (map f (drop n xs)). x \<le> y"
    by (simp add: sorted_append)
  then show ?thesis using assms(2) e by auto
qed

lemma pending_events_query_fifo:
  assumes "0 \<le> limit"
  shows "(\<forall>e\<in>set (pending_events_query d limit). status e = ''PENDING'')
       \<and> sorted (map event_created_at (pending_events_query d limit))
       \<and> length (pending_events_query d limit)
            = min (nat limit) (length (filter (\<lambda>e. status e = ''PENDING'') (outbox_events d)))
       \<and> set (pending_events_query d limit) \<subseteq> set (outbox_events d)
       \<and> (\<forall>e\<in>set (outbox_events d).
             status e = ''PENDING'' \<and> e \<notin> set (pending_events_query d limit) \<longrightarrow>
             (\<forall>r\<in>set (pending_events_query d limit).
                event_created_at r \<le> event_created_at e))"
proof -
  let ?xs = "sort_key event_created_at (filter (\<lambda>e. status e = ''PENDING'') (outbox_events d))"
  let ?evs = "pending_events_query d limit"
  have evs: "?evs = take (nat limit) ?xs" by (simp add: pending_events_query_def)
  have sub: "set ?evs \<subseteq> set ?xs" unfolding evs by (rule set_take_subset)
  have setxs: "set ?xs = {e \<in> set (outbox_events d). status e = ''PENDING''}" by simp
  have c1: "\<forall>e\<in>set ?evs. status e = ''PENDING''" using sub setxs by blast
  have srt: "sorted (map event_created_at ?xs)" by (rule sorted_sort_key)
  have c2: "sorted (map event_created_at ?evs)"
    unfolding evs take_map[symmetric] using srt by (rule sorted_wrt_take)
  have c3: "length ?evs
              = min (nat limit) (length (filter (\<lambda>e. status e = ''PENDING'') (outbox_events d)))"
    unfolding evs by (simp add: min.commute)
  have c4: "set ?evs \<subseteq> set (outbox_events d)" using sub setxs by blast
  have c5: "\<forall>e\<in>set (outbox_events d). status e = ''PENDING'' \<and> e \<notin> set ?evs \<longrightarrow>
             (\<forall>r\<in>set ?evs. event_created_at r \<le> event_created_at e)"
  proof (intro ballI impI)
    fix e r
    assume e: "e \<in> set (outbox_events d)" and pe: "status e = ''PENDING'' \<and> e \<notin> set ?evs"
      and r: "r \<in> set ?evs"
    have "e \<in> set ?xs" using e pe setxs by blast
    then show "event_created_at r \<le> event_created_at e"
      using take_sorted_le_rest[OF srt, of r "nat limit" e] r pe unfolding evs by blast
  qed
  show ?thesis using c1 c2 c3 c4 c5 by blast
qed

lemma row_to_event_raises: "row_to_event row = Inl ValidationError"
  by (simp add: row_to_event_def and_then_def)

lemma comprehension_row_to_event:
  "comprehension row_to_event rows = (if rows = [] then Inr [] else Inl ValidationError)"
  by (cases rows) (simp_all add: row_to_event_raises and_then_def)

lemma get_pending_events_returns_nothing:
  assumes "get_pending_events up d limit = Inr evs"
  shows "evs = []"
proof -
  have "comprehension row_to_event (pending_events_query d limit) = Inr evs"
    using assms unfolding get_pending_events_def
    by (cases up; cases "pg_bigint limit"; cases "limit < 0") simp_all
  then show ?thesis
    unfolding comprehension_row_to_event
    by (cases "pending_events_query d limit = []") simp_all
qed

lemma three_retries_still_polled:
  "pending_events_query
     (snd (increment_retry True (snd (increment_retry True (snd (increment_retry True
        (demo_db\<lparr>outbox_events := [demo_event_row\<lparr>retry_count := 0\<rparr>]\<rparr>) ''e1'')) ''e1'')) ''e1''))
     100
   = [demo_event_row\<lparr>retry_count := 3\<rparr>]"
  by (simp add: pending_events_query_def increment_retry_def demo_db_def demo_event_row_def
        Let_def)

text \<open>
  Claim C6. The statement of \<open>get_pending_events\<close> selects the oldest pending row of a
  table with three events, but the call raises \<open>ValidationError\<close> instead of returning
  it: the conversion of the fetched row finds JSON text where the event class requires a
  dictionary.
\<close>

theorem get_pending_events_raises_on_pending_row:
  "pending_events_query (demo_db\<lparr>outbox_events := demo_outbox\<rparr>) 1 = [demo_event_row]
   \<and> get_pending_events True (demo_db\<lparr>outbox_events := demo_outbox\<rparr>) 1
       = Inl ValidationError"
  by (simp add: get_pending_events_def pending_events_query_def row_to_event_raises
        and_then_def pg_bigint_def demo_outbox_def demo_event_row_def)

section \<open>Order status updates\<close>

lemma orders_update_status:
  "orders (snd (update_status True now d oid st)) =
     map (\<lambda>r. if order_id r = oid then r\<lparr>order_status := st, order_updated_at := now\<rparr> else r)
       (orders d)"
  by (simp add: update_status_def Let_def)

lemma status_of_update_status:
  "status_of (snd (update_status True now d oid st)) k =
     (if k = oid then map_option (\<lambda>_. st) (status_of d k) else status_of d k)"
proof -
  let ?f = "\<lambda>r. if order_id r = oid then r\<lparr>order_status := st, order_updated_at := now\<rparr> else r"
  have key: "\<And>x. order_id (?f x) = order_id x" by simp
  have fm: "find (\<lambda>r. order_id r = k) (map ?f (orders d))
          = map_option ?f (find (\<lambda>r. order_id r = k) (orders d))"
    using key by (rule find_map_key)
  show ?thesis
  proof (cases "find (\<lambda>r. order_id r = k) (orders d)")
    case None
    then show ?thesis unfolding status_of_def orders_update_status fm by auto
  next
    case (Some r)
    then have "order_id r = k" by (auto simp: find_Some_iff)
    then show ?thesis unfolding status_of_def orders_update_status fm Some by simp
  qed
qed





section \<open>Inventory feedback\<close>

lemma update_status_case:
  "(case update_status True now d u ns of (Inl e, _) \<Rightarrow> Inl e | (Inr success, d') \<Rightarrow> Inr d')
     = (Inr (snd (update_status True now d u ns)) :: py_exn + db)"
  by (simp add: update_status_def Let_def)

lemma feedback_message_snd:
  "snd (feedback_message ex ns loads parse True now d raw) =
     (case feedback_target ex loads parse raw of
        None \<Rightarrow> d | Some u \<Rightarrow> snd (update_status True now d u ns))"
  unfolding feedback_message_def feedback_try_def feedback_target_def and_then_def
    update_status_case
  by (simp split: sum.splits)


lemma feedback_idempotent:
  "status_of (snd (feedback_message ex ns loads parse True n2
       (snd (feedback_message ex ns loads parse True n1 d raw)) raw)) k
     = status_of (snd (feedback_message ex ns loads parse True n1 d raw)) k"
proof (cases "feedback_target ex loads parse raw")
  case None
  then show ?thesis unfolding feedback_message_snd by simp
next
  case (Some u)
  show ?thesis unfolding feedback_message_snd Some option.case status_of_update_status
    by (cases "status_of d k") auto
qed

lemma feedback_try_error:
  assumes "loads raw = Inl e"
  shows "feedback_try ex ns loads parse up now d raw = Inl e"
  using assms by (simp add: feedback_try_def and_then_def)

lemma get_order_id_obj:
  "\<exists>v. get_order_id (JObj kvs) = Inr v"
  by (simp add: get_order_id_def and_then_def)

lemma feedback_try_obj:
  assumes "loads raw = Inr (JObj kvs)" and "get_order_id (JObj kvs) = Inr v"
    and "dict_get (JObj kvs) ''status'' = Inr st"
  shows "feedback_try ex ns loads parse up now d raw =
          (if \<not> py_truthy v then Inr d
           else if st \<noteq> JStr ex then Inr d
           else and_then (UUID parse v) (\<lambda>u.
             (case update_status up now d u ns of
                (Inl e, _) \<Rightarrow> Inl e | (Inr success, d') \<Rightarrow> Inr d')))"
  using assms unfolding feedback_try_def by (simp add: and_then_def)

lemma feedback_drops_undecodable:
  assumes "loads raw = Inl e" and "is_ValueError e"
  shows "feedback_message ex ns loads parse up now d raw = (Acked, d)"
  using assms by (simp add: feedback_message_def feedback_try_error)

lemma feedback_drops_missing_id:
  assumes "loads raw = Inr (JObj kvs)" and "get_order_id (JObj kvs) = Inr v" and "\<not> py_truthy v"
  shows "feedback_message ex ns loads parse up now d raw = (Acked, d)"
proof -
  obtain st where "dict_get (JObj kvs) ''status'' = Inr st" by simp
  then show ?thesis
    using assms by (simp add: feedback_message_def feedback_try_obj)
qed

lemma feedback_drops_other_status:
  assumes "loads raw = Inr (JObj kvs)" and "dict_get (JObj kvs) ''status'' = Inr st"
    and "st \<noteq> JStr ex"
  shows "feedback_message ex ns loads parse up now d raw = (Acked, d)"
proof -
  obtain v where "get_order_id (JObj kvs) = Inr v" using get_order_id_obj by blast
  then show ?thesis
    using assms by (simp add: feedback_message_def feedback_try_obj)
qed

lemma feedback_drops_bad_uuid_text:
  assumes "loads raw = Inr (JObj kvs)" and "get_order_id (JObj kvs) = Inr (JStr s)"
    and "parse s = None"
  shows "feedback_message ex ns loads parse up now d raw = (Acked, d)"
proof -
  obtain st where "dict_get (JObj kvs) ''status'' = Inr st" by simp
  then show ?thesis
    using assms
    by (simp add: feedback_message_def feedback_try_obj and_then_def is_ValueError_def)
qed

lemma feedback_rejects_on_database_failure:
  assumes "feedback_target ex loads parse raw = Some u"
  shows "feedback_message ex ns loads parse False now d raw = (Rejected, d)"
  using assms
  unfolding feedback_message_def feedback_try_def feedback_target_def and_then_def
  by (auto simp: update_status_def is_ValueError_def split: sum.splits if_splits)




text \<open>
  Claim C9. Updating an order to a status twice, or handling the same feedback message
  twice, leaves every order with the status it has after the first time.
\<close>

theorem feedback_idempotent_status:
  "status_of (snd (update_status True n2 (snd (update_status True n1 d oid st)) oid st)) k
     = status_of (snd (update_status True n1 d oid st)) k
   \<and> status_of (snd (process_reserved_message loads parse True n2
         (snd (process_reserved_message loads parse True n1 d raw)) raw)) k
     = status_of (snd (process_reserved_message loads parse True n1 d raw)) k
   \<and> status_of (snd (process_rejected_message loads parse True n2
         (snd (process_rejected_message loads parse True n1 d raw)) raw)) k
     = status_of (snd (process_rejected_message loads parse True n1 d raw)) k"
proof -
  have a: "status_of (snd (update_status True n2 (snd (update_status True n1 d oid st)) oid st)) k
     = status_of (snd (update_status True n1 d oid st)) k"
    unfolding status_of_update_status by (cases "status_of d k") auto
  show ?thesis
    unfolding process_reserved_message_def process_rejected_message_def
    using a feedback_idempotent by blast
qed

text \<open>
  Claim C7. A message whose order id is the JSON number \<open>12345\<close> and whose status
  matches the feed is not acknowledged: \<open>UUID(12345)\<close> raises \<open>AttributeError\<close>,
  which is no \<open>ValueError\<close>, so the handler raises it again and the message is rejected.
  No order changes.
\<close>

theorem reserved_rejects_numeric_order_id:
  "process_reserved_message
     (\<lambda>raw. Inr (JObj [(''orderId'', JInt 12345), (''status'', JStr ''reserved'')]))
     (\<lambda>s. None) True 9 (demo_db\<lparr>orders := [demo_order]\<rparr>) ''message''
   = (Rejected, demo_db\<lparr>orders := [demo_order]\<rparr>)"
  by (simp add: process_reserved_message_def feedback_message_def feedback_try_def
        get_order_id_def and_then_def is_ValueError_def)

section \<open>Publishing\<close>

lemma get_routing_key_id: "get_routing_key t = t"
  by (simp add: get_routing_key_def routing_keys_def)

lemma publish_event_message:
  assumes "publish_event dumps B chan ev = (ok, sent, chan')"
  shows "(ok \<longrightarrow> (\<exists>p. sent = Some p
            \<and> pub_exchange p = default_exchange
            \<and> pub_routing_key p = event_type ev
            \<and> dumps (event_data ev) = Inr (body (pub_message p))
            \<and> delivery_mode (pub_message p) = PERSISTENT
            \<and> message_id (pub_message p) = event_id ev
            \<and> headers (pub_message p) =
                 [(''event_type'', event_type ev), (''aggregate_id'', aggregate_id ev),
                  (''aggregate_type'', aggregate_type ev)]))
       \<and> (\<not> ok \<longrightarrow> sent = None)"
  using assms
  unfolding publish_event_def exchange_publish_def and_then_def get_routing_key_id Let_def
  by (auto split: sum.splits option.splits if_splits)

text \<open>
  Claim C8. \<open>publish_event\<close> on a publisher without a channel connects, which declares
  the durable topic exchange \<open>amq.topic\<close>, and then publishes on the channel's default
  exchange: persistent, with the event id as message id, the three headers and the event
  type as routing key, but not on the topic exchange.
\<close>

theorem publish_event_uses_default_exchange:
  "publish_event (\<lambda>j. Inr ''{}'') \<lparr>connect_ok = True, publish_ok = True\<rparr> None demo_event
     = (True,
        Some \<lparr>pub_exchange = default_exchange, pub_routing_key = ''order.created'',
              pub_message = \<lparr>body = ''{}'', delivery_mode = PERSISTENT, message_id = ''e1'',
                headers = [(''event_type'', ''order.created''), (''aggregate_id'', ''o1''),
                           (''aggregate_type'', ''Order'')]\<rparr>\<rparr>,
        Some \<lparr>is_closed = False, durable_topic_exchanges = [''amq.topic'']\<rparr>)
   \<and> default_exchange \<noteq> declared_exchange ''amq.topic''"
  by (simp add: publish_event_def connect_def exchange_publish_def and_then_def
        get_routing_key_id demo_event_def create_order_created_event_def demo_order_def)


section \<open>The order-commit transaction\<close>

lemma reserve_query_other_tables:
  "orders (snd (stock_reserve_update now d pid q)) = orders d"
  "outbox_events (snd (stock_reserve_update now d pid q)) = outbox_events d"
  by (simp_all add: stock_reserve_update_def Let_def)

lemma stock_reserve_query_cases:
  "stock_reserve_query now d pid q = Inl DataError
   \<or> stock_reserve_query now d pid q = Inr (stock_reserve_update now d pid q)"
  by (simp add: stock_reserve_query_def)

lemma create_with_reservation:
  "create_with_outbox_event dumps up now d ord ev (Some pid) (Some q) =
     (case dumps (event_data ev) of
        Inl e \<Rightarrow> (Inl e, d)
      | Inr j \<Rightarrow>
          if \<not> up then (Inl InfrastructureError, d)
          else (case stock_reserve_query now d pid q of
                  Inl e \<Rightarrow> (Inl e, d)
                | Inr (stock_row, d1) \<Rightarrow>
                    if stock_row = None then (Inl InsufficientStockError, d)
                    else if order_id ord \<in> set (map order_id (orders d))
                      then (Inl (IntegrityConstraintViolationError ''orders''), d)
                    else if event_id ev \<in> set (map event_id (outbox_events d))
                      then (Inl (IntegrityConstraintViolationError ''outbox_events''), d)
                    else (Inr ord,
                          d1\<lparr>orders := orders d @ [ord],
                             outbox_events := outbox_events d @ [outbox_row ev j]\<rparr>)))"
proof (cases "dumps (event_data ev)")
  case (Inl e)
  then show ?thesis by (simp add: create_with_outbox_event_def)
next
  case (Inr j)
  from stock_reserve_query_cases[of now d pid q] show ?thesis
  proof
    assume "stock_reserve_query now d pid q = Inl DataError"
    then show ?thesis
      using Inr by (simp add: create_with_outbox_event_def transaction_def and_then_def)
  next
    assume ok: "stock_reserve_query now d pid q = Inr (stock_reserve_update now d pid q)"
    obtain r d1 where q: "stock_reserve_update now d pid q = (r, d1)"
      by (cases "stock_reserve_update now d pid q")
    have o: "orders d1 = orders d" "outbox_events d1 = outbox_events d"
      using reserve_query_other_tables[of now d pid q] q by simp_all
    show ?thesis
      using Inr ok q o
      by (cases r)
         (simp_all add: create_with_outbox_event_def transaction_def and_then_def
            order_insert_query_def outbox_insert_query_def)
  qed
qed

lemma create_with_reservation_runs:
  assumes "stock_reserve_query now d pid q = Inr (stock_reserve_update now d pid q)"
  shows "create_with_outbox_event dumps up now d ord ev (Some pid) (Some q) =
     (case dumps (event_data ev) of
        Inl e \<Rightarrow> (Inl e, d)
      | Inr j \<Rightarrow>
          if \<not> up then (Inl InfrastructureError, d)
          else if fst (stock_reserve_update now d pid q) = None
            then (Inl InsufficientStockError, d)
          else if order_id ord \<in> set (map order_id (orders d))
            then (Inl (IntegrityConstraintViolationError ''orders''), d)
          else if event_id ev \<in> set (map event_id (outbox_events d))
            then (Inl (IntegrityConstraintViolationError ''outbox_events''), d)
          else (Inr ord,
                (snd (stock_reserve_update now d pid q))
                  \<lparr>orders := orders d @ [ord],
                   outbox_events := outbox_events d @ [outbox_row ev j]\<rparr>))"
  unfolding create_with_reservation assms
  by (cases "stock_reserve_update now d pid q") (auto split: sum.splits)

lemma create_with_reservation_refused:
  assumes "stock_reserve_query now d pid q = Inl DataError"
  shows "snd (create_with_outbox_event dumps up now d ord ev (Some pid) (Some q)) = d
       \<and> (\<exists>e. fst (create_with_outbox_event dumps up now d ord ev (Some pid) (Some q)) = Inl e)"
  unfolding create_with_reservation assms
  by (cases "dumps (event_data ev)") simp_all

lemma create_without_reservation:
  assumes "product_id_arg = None \<or> quantity_arg = None"
  shows "create_with_outbox_event dumps up now d ord ev product_id_arg quantity_arg =
     (case dumps (event_data ev) of
        Inl e \<Rightarrow> (Inl e, d)
      | Inr j \<Rightarrow>
          if \<not> up then (Inl InfrastructureError, d)
          else if order_id ord \<in> set (map order_id (orders d))
            then (Inl (IntegrityConstraintViolationError ''orders''), d)
          else if event_id ev \<in> set (map event_id (outbox_events d))
            then (Inl (IntegrityConstraintViolationError ''outbox_events''), d)
          else (Inr ord,
                d\<lparr>orders := orders d @ [ord],
                  outbox_events := outbox_events d @ [outbox_row ev j]\<rparr>))"
proof -
  have sel: "(case (product_id_arg, quantity_arg) of
                 (Some pid, Some q) \<Rightarrow>
                   and_then (stock_reserve_query now d pid q)
                     (\<lambda>(stock_row, d1).
                        case stock_row of
                          None \<Rightarrow> Inl InsufficientStockError
                        | Some _ \<Rightarrow> Inr d1)
               | _ \<Rightarrow> Inr d) = (Inr d :: py_exn + db)"
    using assms by (auto split: option.splits)
  show ?thesis
    unfolding create_with_outbox_event_def transaction_def sel
    by (cases "dumps (event_data ev)")
       (simp_all add: and_then_def order_insert_query_def outbox_insert_query_def)
qed

text \<open>
  Claim C10. When \<open>create_with_outbox_event\<close> is called without a product id or
  without a quantity, the products table is left as it is, whatever the stock, and with a
  working connection, a serialisable payload and fresh ids the order row and the outbox row
  are inserted and committed.
\<close>

theorem create_without_product_skips_reservation:
  assumes "product_id_arg = None \<or> quantity_arg = None"
  shows "products (snd (create_with_outbox_event dumps up now d ord ev product_id_arg quantity_arg))
           = products d
       \<and> (dumps (event_data ev) = Inr j \<and> up
            \<and> order_id ord \<notin> set (map order_id (orders d))
            \<and> event_id ev \<notin> set (map event_id (outbox_events d)) \<longrightarrow>
          create_with_outbox_event dumps up now d ord ev product_id_arg quantity_arg
            = (Inr ord, d\<lparr>orders := orders d @ [ord],
                           outbox_events := outbox_events d @ [outbox_row ev j]\<rparr>))"
  unfolding create_without_reservation[OF assms]
  by (cases "dumps (event_data ev)") simp_all

theorem create_without_product_skips_reservation_witness:
  "create_with_outbox_event (\<lambda>j. Inr ''{}'') True 9 demo_db (demo_order\<lparr>quantity := 100\<rparr>)
      demo_event None None
     = (Inr (demo_order\<lparr>quantity := 100\<rparr>),
        demo_db\<lparr>orders := [demo_order\<lparr>quantity := 100\<rparr>],
                outbox_events := [outbox_row demo_event ''{}'']\<rparr>)
   \<and> stock_of demo_db ''p1'' = Some 5"
proof -
  have s: "stock_of demo_db ''p1'' = Some 5"
    by (simp add: stock_of_def demo_db_def demo_product_def)
  have e: "event_data demo_event = event_data demo_event" by simp
  show ?thesis
    using s create_without_product_skips_reservation
      [where product_id_arg = None and quantity_arg = None and dumps = "\<lambda>j. Inr ''{}''"
         and up = True and now = 9 and d = demo_db and ord = "demo_order\<lparr>quantity := 100\<rparr>"
         and ev = demo_event and j = "''{}''"]
    by (simp add: demo_db_def)
qed

lemma stock_of_other_tables:
  "stock_of (d\<lparr>orders := os, outbox_events := es\<rparr>) k = stock_of d k"
  by (simp add: stock_of_def)

lemma execute_unfold:
  "execute E d req trace_id span_id =
     (case validate_order_data req of
        Inl e \<Rightarrow> (Inl e, d)
      | Inr _ \<Rightarrow>
          if \<not> conn_lookup E then (Inl InfrastructureError, d)
          else (case find (\<lambda>p. prod_id p = req_product_id req) (products d) of
                  None \<Rightarrow>
                    (Inl (InvalidOrderDataError (''Product not found: '' @ req_product_id req)), d)
                | Some _ \<Rightarrow>
                    create_with_outbox_event (orjson_dumps E) (conn_commit E) (db_now E) d
                      (Order_create_new (uuid4_order E) (utcnow_order E)
                          (req_customer_id req) (req_product_id req)
                          (req_quantity req) (req_total_amount req))
                      (create_order_created_event (uuid4_event E) (utcnow_event E)
                          (isoformat E)
                          (Order_create_new (uuid4_order E) (utcnow_order E)
                             (req_customer_id req) (req_product_id req)
                             (req_quantity req) (req_total_amount req))
                          trace_id span_id)
                      (Some (req_product_id req)) (Some (req_quantity req))))"
  by (simp add: execute_def get_by_id_def Let_def split: sum.splits option.splits)


lemma create_with_reservation_cases:
  assumes dist: "distinct (map prod_id (products d))" and st: "stock_of d pid = Some s"
    and run: "create_with_outbox_event dumps up now d ord ev (Some pid) (Some q) = (res, d')"
  shows "(\<exists>e. res = Inl e \<and> d' = d)
       \<or> (\<exists>j. res = Inr ord \<and> dumps (event_data ev) = Inr j
             \<and> orders d' = orders d @ [ord]
             \<and> outbox_events d' = outbox_events d @ [outbox_row ev j]
             \<and> q \<le> s \<and> stock_of d' pid = Some (s - q)
             \<and> (\<forall>k. k \<noteq> pid \<longrightarrow> stock_of d' k = stock_of d k))"
proof -
  have fq: "fst (stock_reserve_update now d pid q) = (if q \<le> s then Some (s - q) else None)"
    using dist st by (rule reserve_query_fst)
  let ?d1 = "snd (stock_reserve_update now d pid q)"
  from stock_reserve_query_cases[of now d pid q] show ?thesis
  proof
    assume "stock_reserve_query now d pid q = Inl DataError"
    then have "\<exists>e. res = Inl e \<and> d' = d"
      using create_with_reservation_refused[of now d pid q dumps up ord ev] run by simp
    then show ?thesis by blast
  next
  assume runs: "stock_reserve_query now d pid q = Inr (stock_reserve_update now d pid q)"
  note create_with_reservation = create_with_reservation_runs[OF runs]
  show ?thesis
  proof (cases "dumps (event_data ev)")
    case (Inl e)
    then show ?thesis using run unfolding create_with_reservation by auto
  next
    case (Inr j)
    show ?thesis
    proof (cases "up \<and> q \<le> s \<and> order_id ord \<notin> set (map order_id (orders d))
                   \<and> event_id ev \<notin> set (map event_id (outbox_events d))")
      case False
      then have "\<exists>e. res = Inl e \<and> d' = d"
        using run Inr fq unfolding create_with_reservation by (auto split: if_splits)
      then show ?thesis by blast
    next
      case True
      then have r: "res = Inr ord"
        and d': "d' = ?d1\<lparr>orders := orders d @ [ord],
                           outbox_events := outbox_events d @ [outbox_row ev j]\<rparr>"
        using run Inr fq unfolding create_with_reservation by auto
      have s1: "stock_of d' pid = Some (s - q)"
        unfolding d' stock_of_other_tables stock_of_reserve st using True by simp
      have s2: "\<forall>k. k \<noteq> pid \<longrightarrow> stock_of d' k = stock_of d k"
      proof (intro allI impI)
        fix k assume "k \<noteq> pid"
        then show "stock_of d' k = stock_of d k"
          unfolding d' stock_of_other_tables stock_of_reserve
          by (cases "stock_of d k") simp_all
      qed
      have "orders d' = orders d @ [ord]"
        and "outbox_events d' = outbox_events d @ [outbox_row ev j]"
        unfolding d' by simp_all
      then show ?thesis using r Inr True s1 s2 by blast
    qed
  qed
qed
qed

lemma create_with_reservation_order:
  assumes dist: "distinct (map prod_id (products d))" and st: "stock_of d pid = Some s"
    and ok: "dumps (event_data ev) = Inr j" "up"
    and pg: "pg_integer q" "0 \<le> q"
  shows "s < q \<longrightarrow>
           create_with_outbox_event dumps up now d ord ev (Some pid) (Some q)
             = (Inl InsufficientStockError, d)"
    and "q \<le> s \<and> order_id ord \<in> set (map order_id (orders d)) \<longrightarrow>
           create_with_outbox_event dumps up now d ord ev (Some pid) (Some q)
             = (Inl (IntegrityConstraintViolationError ''orders''), d)"
proof -
  have fq: "fst (stock_reserve_update now d pid q) = (if q \<le> s then Some (s - q) else None)"
    using dist st by (rule reserve_query_fst)
  have "q \<le> s \<and> pg_integer s \<longrightarrow> pg_integer (s - q)"
    using pg(2) by (auto simp: pg_integer_def)
  then have runs: "stock_reserve_query now d pid q = Inr (stock_reserve_update now d pid q)"
    using dist st pg(1) by (intro stock_reserve_query_runs)
  show "s < q \<longrightarrow>
           create_with_outbox_event dumps up now d ord ev (Some pid) (Some q)
             = (Inl InsufficientStockError, d)"
    unfolding create_with_reservation_runs[OF runs] using ok fq by simp
  show "q \<le> s \<and> order_id ord \<in> set (map order_id (orders d)) \<longrightarrow>
           create_with_outbox_event dumps up now d ord ev (Some pid) (Some q)
             = (Inl (IntegrityConstraintViolationError ''orders''), d)"
    unfolding create_with_reservation_runs[OF runs] using ok fq by simp
qed

lemma validate_order_data_range:
  assumes "validate_order_data req = Inr ()"
  shows "pg_integer (req_quantity req)" and "0 \<le> req_quantity req"
proof -
  have "0 < req_quantity req \<and> req_quantity req \<le> 1000"
    using assms unfolding validate_order_data_def
    by (cases "req_quantity req \<le> 0"; cases "req_quantity req > 1000") simp_all
  then show "pg_integer (req_quantity req)" and "0 \<le> req_quantity req"
    by (simp_all add: pg_integer_def)
qed

text \<open>
  Claim C1. Every run of \<open>CreateOrderUseCase.execute\<close> on a products table with unique
  ids either fails and leaves the database as it was, or returns the new \<open>PENDING\<close>
  order after appending exactly that order row and one pending \<open>order.created\<close> outbox
  row whose aggregate id is the order's id, with the product's stock lowered by the
  requested quantity and every other product untouched. With less stock than requested the
  run fails without any change, and with \<open>InsufficientStockError\<close> once validation,
  both connections and the serialiser succeed, even when the new order id is taken: the
  reservation comes first. With enough stock and a taken order id the error is the
  integrity error of the orders table, so the order is inserted before the event.
\<close>

theorem order_commit_atomic:
  assumes dist: "distinct (map prod_id (products d))"
    and run: "execute E d req trace_id span_id = (res, d')"
  shows "((\<exists>e. res = Inl e \<and> d' = d)
          \<or> (\<exists>ord row s. res = Inr ord \<and> order_status ord = PENDING
                \<and> product_id ord = req_product_id req \<and> quantity ord = req_quantity req
                \<and> orders d' = orders d @ [ord]
                \<and> outbox_events d' = outbox_events d @ [row]
                \<and> aggregate_id row = order_id ord \<and> event_type row = ''order.created''
                \<and> status row = ''PENDING''
                \<and> stock_of d (req_product_id req) = Some s \<and> req_quantity req \<le> s
                \<and> stock_of d' (req_product_id req) = Some (s - req_quantity req)
                \<and> (\<forall>k. k \<noteq> req_product_id req \<longrightarrow> stock_of d' k = stock_of d k)))
       \<and> (\<forall>s. stock_of d (req_product_id req) = Some s \<and> s < req_quantity req \<longrightarrow>
             d' = d \<and> (\<exists>e. res = Inl e)
             \<and> (validate_order_data req = Inr () \<and> conn_lookup E \<and> conn_commit E
                  \<and> (\<forall>x. \<exists>j. orjson_dumps E x = Inr j) \<longrightarrow>
                 res = Inl InsufficientStockError))
       \<and> (\<forall>s. stock_of d (req_product_id req) = Some s \<and> req_quantity req \<le> s
               \<and> validate_order_data req = Inr () \<and> conn_lookup E \<and> conn_commit E
               \<and> (\<forall>x. \<exists>j. orjson_dumps E x = Inr j)
               \<and> uuid4_order E \<in> set (map order_id (orders d)) \<longrightarrow>
             res = Inl (IntegrityConstraintViolationError ''orders'') \<and> d' = d)"
proof -
  let ?pid = "req_product_id req" and ?q = "req_quantity req"
  let ?ord = "Order_create_new (uuid4_order E) (utcnow_order E)
                (req_customer_id req) (req_product_id req)
                (req_quantity req) (req_total_amount req)"
  let ?ev = "create_order_created_event (uuid4_event E) (utcnow_event E) (isoformat E)
               ?ord trace_id span_id"
  let ?commit = "create_with_outbox_event (orjson_dumps E) (conn_commit E) (db_now E) d
                   ?ord ?ev (Some ?pid) (Some ?q)"
  have split: "(\<exists>e. res = Inl e \<and> d' = d
                  \<and> \<not> (validate_order_data req = Inr () \<and> conn_lookup E
                        \<and> stock_of d ?pid \<noteq> None))
             \<or> (validate_order_data req = Inr () \<and> conn_lookup E
                  \<and> stock_of d ?pid \<noteq> None \<and> ?commit = (res, d'))"
    using run unfolding execute_unfold
    by (auto simp: stock_of_def split: sum.splits option.splits if_splits)
  then show ?thesis
  proof (elim disjE conjE exE)
    fix e
    assume "res = Inl e" "d' = d"
      and "\<not> (validate_order_data req = Inr () \<and> conn_lookup E \<and> stock_of d ?pid \<noteq> None)"
    then show ?thesis by auto
  next
    assume v: "validate_order_data req = Inr ()" and c: "conn_lookup E"
      and ex: "stock_of d ?pid \<noteq> None" and commit: "?commit = (res, d')"
    obtain s where s: "stock_of d ?pid = Some s" using ex by auto
    have cases: "(\<exists>e. res = Inl e \<and> d' = d)
       \<or> (\<exists>j. res = Inr ?ord \<and> orjson_dumps E (event_data ?ev) = Inr j
             \<and> orders d' = orders d @ [?ord]
             \<and> outbox_events d' = outbox_events d @ [outbox_row ?ev j]
             \<and> ?q \<le> s \<and> stock_of d' ?pid = Some (s - ?q)
             \<and> (\<forall>k. k \<noteq> ?pid \<longrightarrow> stock_of d' k = stock_of d k))"
      using dist s commit by (rule create_with_reservation_cases)
    have ordp: "order_status ?ord = PENDING" "product_id ?ord = ?pid" "quantity ?ord = ?q"
      "order_id ?ord = uuid4_order E"
      by (simp_all add: Order_create_new_def)
    have rowp: "\<And>j. aggregate_id (outbox_row ?ev j) = order_id ?ord"
      "\<And>j. event_type (outbox_row ?ev j) = ''order.created''"
      "\<And>j. status (outbox_row ?ev j) = ''PENDING''"
      by (simp_all add: outbox_row_def create_order_created_event_def)
    have p1: "(\<exists>e. res = Inl e \<and> d' = d)
          \<or> (\<exists>ord row s. res = Inr ord \<and> order_status ord = PENDING
                \<and> product_id ord = ?pid \<and> quantity ord = ?q
                \<and> orders d' = orders d @ [ord]
                \<and> outbox_events d' = outbox_events d @ [row]
                \<and> aggregate_id row = order_id ord \<and> event_type row = ''order.created''
                \<and> status row = ''PENDING''
                \<and> stock_of d ?pid = Some s \<and> ?q \<le> s
                \<and> stock_of d' ?pid = Some (s - ?q)
                \<and> (\<forall>k. k \<noteq> ?pid \<longrightarrow> stock_of d' k = stock_of d k))"
      using cases
    proof (elim disjE exE conjE)
      fix e assume "res = Inl e" "d' = d"
      then show ?thesis by blast
    next
      fix j
      assume a: "res = Inr ?ord" "orders d' = orders d @ [?ord]"
        "outbox_events d' = outbox_events d @ [outbox_row ?ev j]"
        "?q \<le> s" "stock_of d' ?pid = Some (s - ?q)"
        "\<forall>k. k \<noteq> ?pid \<longrightarrow> stock_of d' k = stock_of d k"
      show ?thesis
        apply (rule disjI2)
        apply (rule exI[of _ ?ord])
        apply (rule exI[of _ "outbox_row ?ev j"])
        apply (rule exI[of _ s])
        using a s ordp(1,2,3) rowp by simp
    qed
    have less: "s < ?q \<Longrightarrow> d' = d \<and> (\<exists>e. res = Inl e)"
      using cases by auto
    have insuff: "s < ?q \<Longrightarrow> conn_commit E \<Longrightarrow> (\<forall>x. \<exists>j. orjson_dumps E x = Inr j)
                    \<Longrightarrow> res = Inl InsufficientStockError"
    proof -
      assume lt: "s < ?q" and up: "conn_commit E" and tot: "\<forall>x. \<exists>j. orjson_dumps E x = Inr j"
      obtain j where j: "orjson_dumps E (event_data ?ev) = Inr j" using tot by blast
      have "?commit = (Inl InsufficientStockError, d)"
        using create_with_reservation_order(1)[where dumps = "orjson_dumps E" and ev = ?ev,
            OF dist s j up validate_order_data_range[OF v]] lt by blast
      then show ?thesis using commit by simp
    qed
    have dup: "?q \<le> s \<Longrightarrow> conn_commit E \<Longrightarrow> (\<forall>x. \<exists>j. orjson_dumps E x = Inr j)
                 \<Longrightarrow> uuid4_order E \<in> set (map order_id (orders d))
                 \<Longrightarrow> res = Inl (IntegrityConstraintViolationError ''orders'') \<and> d' = d"
    proof -
      assume le: "?q \<le> s" and up: "conn_commit E" and tot: "\<forall>x. \<exists>j. orjson_dumps E x = Inr j"
        and mem: "uuid4_order E \<in> set (map order_id (orders d))"
      obtain j where j: "orjson_dumps E (event_data ?ev) = Inr j" using tot by blast
      have "order_id ?ord \<in> set (map order_id (orders d))" using mem ordp(4) by simp
      then have "?commit = (Inl (IntegrityConstraintViolationError ''orders''), d)"
        using create_with_reservation_order(2)[where dumps = "orjson_dumps E" and ev = ?ev,
            OF dist s j up validate_order_data_range[OF v]] le by blast
      then show ?thesis using commit by simp
    qed
    show ?thesis using p1 less insuff dup s by auto
  qed
qed

theorem order_commit_atomic_witness:
  "fst (execute demo_env demo_db demo_request None None)
     = Inr (Order_create_new ''o9'' 10 ''c1'' ''p1'' 2 (9998 / 100))
   \<and> stock_of demo_db ''p1'' = Some 5
   \<and> stock_of (snd (execute demo_env demo_db demo_request None None)) ''p1'' = Some 3
   \<and> length (orders (snd (execute demo_env demo_db demo_request None None))) = 1
   \<and> length (outbox_events (snd (execute demo_env demo_db demo_request None None))) = 1"
proof -
  let ?run = "execute demo_env demo_db demo_request None None"
  have dist: "distinct (map prod_id (products demo_db))"
    by (simp add: demo_db_def)
  have s5: "stock_of demo_db ''p1'' = Some 5"
    by (simp add: stock_of_def demo_db_def demo_product_def)
  have res: "fst ?run = Inr (Order_create_new ''o9'' 10 ''c1'' ''p1'' 2 (9998 / 100))"
    by (simp add: execute_unfold create_with_reservation validate_order_data_def
          stock_reserve_query_def stock_reserve_update_def pg_integer_def fetchrow_def
          demo_env_def demo_request_def demo_db_def demo_product_def Let_def)
  have run: "?run = (fst ?run, snd ?run)" by simp
  have emp: "orders demo_db = []" "outbox_events demo_db = []"
    by (simp_all add: demo_db_def)
  have pid: "req_product_id demo_request = ''p1''" "req_quantity demo_request = 2"
    by (simp_all add: demo_request_def)
  show ?thesis
    using order_commit_atomic [OF dist run] res s5 emp pid by auto
qed

end
